theory Spec2Isabelle
  imports Main
begin

section \<open>GameBase: the data model\<close>

text \<open>
  The component \<open>GameBase\<close> of \<open>src/comp-game-base-ts.ts\<close> is a class with four
  injected properties (\<open>collisionSystem\<close>, \<open>debugCollision\<close>, \<open>resourceHost\<close>,
  \<open>directory\<close>), two private fields (\<open>_env\<close>, \<open>_query\<close>) and an index signature
  \<open>[key: string]: any\<close> through which the audio methods store clips as dynamic
  properties named \<open>_$audio...\<close>.  It is modelled as a record; the dynamic properties
  are a map from the full property name to the stored clip.  No declared member of the
  class has a name starting with \<open>_$audio\<close>, so the dynamic properties never alias a
  declared field.

  The type \<open>'c\<close> stands for the engine's \<open>cc.AudioClip\<close> objects (objects, hence
  truthy in the test \<open>!url\<close> of \<open>playAudio\<close>), \<open>'q\<close> for the value
  \<open>strings.parseQuery\<close> returns, \<open>'n\<close> for \<open>cc.Node\<close>.
\<close>

datatype env_ref = EnvUnset | EnvModule

record ('c, 'q) GameBase =
  collisionSystem :: bool
  debugCollision :: bool
  resourceHost :: string
  directory :: string
  priv_env :: env_ref
  priv_query :: 'q
  props :: "string \<rightharpoonup> 'c"

text \<open>
  A freshly constructed component: the field initialisers of the class
  (\<open>false\<close>, \<open>false\<close>, \<open>''\<close>, \<open>''\<close>, \<open>_query = {}\<close>) and no dynamic property.
  The empty query object \<open>{}\<close> is a parameter, as its type is.
\<close>

definition fresh :: "'q \<Rightarrow> ('c, 'q) GameBase" where
  "fresh q0 = \<lparr> collisionSystem = False, debugCollision = False,
     resourceHost = [], directory = [],
     priv_env = EnvUnset, priv_query = q0, props = Map.empty \<rparr>"

text \<open>The two \<open>throw new Error(...)\<close> of the file, by their message.\<close>

datatype error =
    HostNotSet  \<comment> \<open>\<open>'Please set resource host property of GameBase!'\<close>\<close>
  | DirectoryNotSet  \<comment> \<open>\<open>'Please set directory first!'\<close>\<close>

text \<open>
  The engine's collision manager (\<open>cc.director.getCollisionManager()\<close>), with the two
  flags \<open>onLoad\<close> writes.
\<close>

record manager =
  enabled :: bool
  enabledDebugDraw :: bool

text \<open>The options object \<open>loadDragonBones\<close> builds for \<open>cc.loaderp.loadDragonBone\<close>.\<close>

record IDragonBoneLoadOptions =
  skeUrl :: string
  texJsonUrl :: string
  texUrl :: string
  armatureName :: string
  animationName :: string
  times :: int

text \<open>
  Calls into the engine, in the order the component makes them.  The engine itself
  (loader, audio engine) is not part of the source; what the component hands to it is.
\<close>

datatype ('c, 'n) call =
    Load string  \<comment> \<open>\<open>cc.loaderp.load(url)\<close>\<close>
  | LoadAll "string list list"  \<comment> \<open>\<open>cc.loaderp.loadAll([[url], ...])\<close>\<close>
  | Play 'c  \<comment> \<open>\<open>cc.audioEngine.play(clip)\<close>\<close>
  | SetFinishCallback int  \<comment> \<open>\<open>cc.audioEngine.setFinishCallback(id, rs)\<close>\<close>
  | LoadDragonBone IDragonBoneLoadOptions 'n  \<comment> \<open>\<open>cc.loaderp.loadDragonBone(opts, node)\<close>\<close>

text \<open>
  The state a method runs in: the component (\<open>this\<close>), the engine's collision manager
  (\<open>None\<close> when \<open>getCollisionManager()\<close> returns \<open>null\<close> or \<open>undefined\<close>), the
  browser's \<open>location.search\<close>, and the calls made to the engine so far.
\<close>

record ('c, 'q, 'n) world =
  this :: "('c, 'q) GameBase"
  collisionManager :: "manager option"
  location_search :: string
  calls :: "('c, 'n) call list"

section \<open>Configuration: setters, guard and URL\<close>

text \<open>
  \<open>setResourceHost\<close> and \<open>setDirectory\<close> assign one field and \<open>return this\<close>: the value
  returned is the component after the assignment.
\<close>

definition setResourceHost :: "string \<Rightarrow> ('c, 'q) GameBase \<Rightarrow> ('c, 'q) GameBase" where
  "setResourceHost host g = g\<lparr>resourceHost := host\<rparr>"

definition setDirectory :: "string \<Rightarrow> ('c, 'q) GameBase \<Rightarrow> ('c, 'q) GameBase" where
  "setDirectory dir g = g\<lparr>directory := dir\<rparr>"

text \<open>
  \<open>checkHostAndDir\<close>: \<open>!this.resourceHost\<close> and \<open>!this.directory\<close> hold of a string
  exactly when it is empty; the host is tested first.
\<close>

definition checkHostAndDir :: "('c, 'q) GameBase \<Rightarrow> error + unit" where
  "checkHostAndDir g =
     (if resourceHost g = [] then Inl HostNotSet
      else if directory g = [] then Inl DirectoryNotSet
      else Inr ())"

text \<open>
  \<open>urlOf(filename, dir = this.directory)\<close>: the argument \<open>dir\<close> is \<open>None\<close> when it is
  omitted, and then takes the default.  The guard runs before the template string is
  built.
\<close>

definition urlOf :: "('c, 'q) GameBase \<Rightarrow> string \<Rightarrow> string option \<Rightarrow> error + string" where
  "urlOf g filename dir_arg =
     (let dir = (case dir_arg of None \<Rightarrow> directory g | Some d \<Rightarrow> d) in
      case checkHostAndDir g of
        Inl e \<Rightarrow> Inl e
      | Inr _ \<Rightarrow> Inr (resourceHost g @ ''/'' @ dir @ ''/'' @ filename))"

section \<open>The capitalize helper\<close>

text \<open>
  Modelled from the spec: \<open>strings.capitalize\<close> of \<open>../util-strings/util-strings\<close>, which
  the component imports and which is not among the sources.  The spec only names it as the
  component's "key-casing convention"; it is modelled as what the name says, the string
  with its first character in upper case and the rest unchanged.  \<open>toUpperCase\<close> is the
  upper case of one character, for the ASCII letters.  The component's methods below take
  the helper as a parameter \<open>cap\<close>, so that what holds for every helper is proved for
  every helper; \<open>capitalize\<close> is used where a property depends on what the helper
  returns.
\<close>

definition toUpperCase :: "char \<Rightarrow> char" where
  "toUpperCase c =
     (let n = (of_char c :: nat) in if 97 \<le> n \<and> n \<le> 122 then char_of (n - 32) else c)"

text \<open>
  Modelled from the spec: \<open>strings.capitalize(str)\<close>, absent from the sources as said
  above; the empty string is returned as it is.
\<close>

fun capitalize :: "string \<Rightarrow> string" where
  "capitalize [] = []"
| "capitalize (c # cs) = toUpperCase c # cs"

section \<open>Audio: loading and playing\<close>

text \<open>
  The name of the dynamic property a clip is kept under: the template string
  \<open>`_$audio${...}`\<close> applied to an already capitalized key.
\<close>

definition slot :: "string \<Rightarrow> string" where
  "slot capitalized = ''_$audio'' @ capitalized"

text \<open>
  The promise \<open>loadAudio\<close> returns is the loader's promise for one URL; when \<open>key\<close> is
  truthy a callback storing the clip has been registered on it (\<open>store_key = Some key\<close>).
\<close>

datatype load_promise = LoadPromise (url: string) (store_key: "string option")

text \<open>
  \<open>loadAudio(filename, key = '')\<close>, up to the \<open>return promise\<close>: the guard, the URL
  (whose own guard runs again), the call of the loader, and the registration of the
  callback when \<open>key\<close> is a non-empty string.
\<close>

definition loadAudio ::
  "('c, 'q, 'n) world \<Rightarrow> string \<Rightarrow> string option \<Rightarrow> error + (load_promise \<times> ('c, 'q, 'n) world)" where
  "loadAudio w filename key_arg =
     (let key = (case key_arg of None \<Rightarrow> [] | Some k \<Rightarrow> k) in
      case checkHostAndDir (this w) of
        Inl e \<Rightarrow> Inl e
      | Inr _ \<Rightarrow>
          (case urlOf (this w) filename None of
             Inl e \<Rightarrow> Inl e
           | Inr u \<Rightarrow>
               Inr (LoadPromise u (if key \<noteq> [] then Some key else None),
                    w\<lparr>calls := calls w @ [Load u]\<rparr>)))"

text \<open>
  The promise of \<open>loadAudio\<close> resolving with \<open>clip\<close>: the registered callback, if any, runs
  \<open>this[`_$audio${strings.capitalize(key)}`] = clip\<close>.
\<close>

definition loadAudio_then ::
  "(string \<Rightarrow> string) \<Rightarrow> load_promise \<Rightarrow> 'c \<Rightarrow> ('c, 'q, 'n) world \<Rightarrow> ('c, 'q, 'n) world" where
  "loadAudio_then cap p clip w =
     (case store_key p of
        None \<Rightarrow> w
      | Some key \<Rightarrow> w\<lparr>this := (this w)\<lparr>props := (props (this w))(slot (cap key) \<mapsto> clip)\<rparr>\<rparr>)"

text \<open>
  The argument of \<open>loadAudios\<close>: an array of filenames, or a record from keys to
  filenames, given as its entries in the order \<open>Object.keys\<close> enumerates them (an object
  has each key once).
\<close>

datatype filenames = Array "string list" | Record "(string \<times> string) list"

text \<open>\<open>filenames.map(it => [this.urlOf(it)])\<close>: the first \<open>urlOf\<close> that throws ends the map.\<close>

fun urlsOf :: "('c, 'q) GameBase \<Rightarrow> string list \<Rightarrow> error + string list list" where
  "urlsOf g [] = Inr []"
| "urlsOf g (it # rest) =
     (case urlOf g it None of
        Inl e \<Rightarrow> Inl e
      | Inr u \<Rightarrow> (case urlsOf g rest of Inl e \<Rightarrow> Inl e | Inr us \<Rightarrow> Inr ([u] # us)))"

text \<open>
  The promise \<open>loadAudios\<close> returns: the loader's promise for a list of argument lists,
  and for a record the keys whose callback stores the clips.
\<close>

datatype loadAll_promise = LoadAllPromise (urls: "string list list") (store_keys: "string list option")

text \<open>
  \<open>loadAudios(filenames)\<close>: the guard runs first on both branches; the record branch calls
  \<open>loadAudios\<close> again on the array of its values, \<open>keys.map(k => filenames[k])\<close>.
\<close>

function loadAudios ::
  "('c, 'q, 'n) world \<Rightarrow> filenames \<Rightarrow> error + (loadAll_promise \<times> ('c, 'q, 'n) world)" where
  "loadAudios w (Array names) =
     (case checkHostAndDir (this w) of
        Inl e \<Rightarrow> Inl e
      | Inr _ \<Rightarrow>
          (case urlsOf (this w) names of
             Inl e \<Rightarrow> Inl e
           | Inr us \<Rightarrow> Inr (LoadAllPromise us None, w\<lparr>calls := calls w @ [LoadAll us]\<rparr>)))"
| "loadAudios w (Record r) =
     (case checkHostAndDir (this w) of
        Inl e \<Rightarrow> Inl e
      | Inr _ \<Rightarrow>
          (let keys = map fst r;
               values = map (\<lambda>k. the (map_of r k)) keys
           in case loadAudios w (Array values) of
                Inl e \<Rightarrow> Inl e
              | Inr (p, w') \<Rightarrow> Inr (LoadAllPromise (urls p) (Some keys), w')))"
  by pat_completeness auto
termination
  by (relation "measure (\<lambda>(w, fs). case fs of Array _ \<Rightarrow> 0 | Record _ \<Rightarrow> Suc 0)") auto

text \<open>
  \<open>clips.forEach((clip, i) => this[`_$audio${strings.capitalize(keys[i])}`] = clip)\<close>,
  from index \<open>i\<close> on.  Beyond the last key \<open>keys[i]\<close> is \<open>undefined\<close>, on which the helper
  is not modelled: the result is \<open>None\<close> there.
\<close>

fun storeClips ::
  "(string \<Rightarrow> string) \<Rightarrow> string list \<Rightarrow> nat \<Rightarrow> 'c list \<Rightarrow> (string \<rightharpoonup> 'c) \<Rightarrow> (string \<rightharpoonup> 'c) option" where
  "storeClips cap keys i [] m = Some m"
| "storeClips cap keys i (clip # rest) m =
     (if i < length keys then storeClips cap keys (Suc i) rest (m(slot (cap (keys ! i)) \<mapsto> clip))
      else None)"

text \<open>The promise of \<open>loadAudios\<close> resolving with \<open>clips\<close>.\<close>

definition loadAudios_then ::
  "(string \<Rightarrow> string) \<Rightarrow> loadAll_promise \<Rightarrow> 'c list \<Rightarrow> ('c, 'q, 'n) world \<Rightarrow> ('c, 'q, 'n) world option" where
  "loadAudios_then cap p clips w =
     (case store_keys p of
        None \<Rightarrow> Some w
      | Some keys \<Rightarrow>
          (case storeClips cap keys 0 clips (props (this w)) of
             None \<Rightarrow> None
           | Some m \<Rightarrow> Some (w\<lparr>this := (this w)\<lparr>props := m\<rparr>\<rparr>)))"

text \<open>
  \<open>playAudio(audioName)\<close>: the name is capitalized twice before the lookup.  A property
  never assigned reads as \<open>undefined\<close> and gives \<open>-1\<close>; otherwise the audio engine plays
  the stored clip and its id is returned.  \<open>play\<close> is the id the engine's
  \<open>cc.audioEngine.play\<close> returns for a clip after the calls made so far.
\<close>

definition playAudio ::
  "(string \<Rightarrow> string) \<Rightarrow> (('c, 'n) call list \<Rightarrow> 'c \<Rightarrow> int) \<Rightarrow> ('c, 'q, 'n) world \<Rightarrow> string
     \<Rightarrow> int \<times> ('c, 'q, 'n) world" where
  "playAudio cap play w audioName =
     (let key = cap audioName in
      case props (this w) (slot (cap key)) of
        None \<Rightarrow> (- 1, w)
      | Some clip \<Rightarrow> (play (calls w) clip, w\<lparr>calls := calls w @ [Play clip]\<rparr>))"

text \<open>
  What \<open>playAudioPromise\<close> returns: \<open>Promise.reject(msg)\<close>; the promise resolved by the
  engine's finish callback of an audio id; or the promise of a load chained with the
  retry \<open>() => this.playAudioPromise(audioName)\<close>.
\<close>

datatype audio_promise =
    Rejected string
  | UntilFinish int
  | Retry load_promise string

text \<open>
  \<open>playAudioPromise(audioName, tryLoad = false, key = audioName, ext = '.mp3')\<close>; an
  omitted argument is \<open>None\<close>.  \<open>loadAudio\<close> may throw before any promise exists.
\<close>

definition playAudioPromise ::
  "(string \<Rightarrow> string) \<Rightarrow> (('c, 'n) call list \<Rightarrow> 'c \<Rightarrow> int) \<Rightarrow> ('c, 'q, 'n) world \<Rightarrow> string
     \<Rightarrow> bool option \<Rightarrow> string option \<Rightarrow> string option
     \<Rightarrow> error + (audio_promise \<times> ('c, 'q, 'n) world)" where
  "playAudioPromise cap play w audioName tryLoad_arg key_arg ext_arg =
     (let tryLoad = (case tryLoad_arg of None \<Rightarrow> False | Some b \<Rightarrow> b);
          key = (case key_arg of None \<Rightarrow> audioName | Some k \<Rightarrow> k);
          ext = (case ext_arg of None \<Rightarrow> ''.mp3'' | Some e \<Rightarrow> e);
          played = playAudio cap play w key;
          aid = fst played;
          w1 = snd played
      in if aid < 0 then
           (if \<not> tryLoad then Inr (Rejected (audioName @ '' not found!''), w1)
            else (case loadAudio w1 (audioName @ ext) (Some key) of
                    Inl e \<Rightarrow> Inl e
                  | Inr (p, w2) \<Rightarrow> Inr (Retry p audioName, w2)))
         else Inr (UntilFinish aid, w1\<lparr>calls := calls w1 @ [SetFinishCallback aid]\<rparr>))"



section \<open>Lifecycle and skeletal animation\<close>

text \<open>
  \<open>onLoad\<close>: binds \<open>_env\<close>, sets \<open>_query\<close> to \<open>strings.parseQuery(location.search)\<close> (the
  helper is the parameter \<open>parseQuery\<close>), and writes the two flags when the engine has a
  collision manager.
\<close>

definition onLoad :: "(string \<Rightarrow> 'q) \<Rightarrow> ('c, 'q, 'n) world \<Rightarrow> ('c, 'q, 'n) world" where
  "onLoad parseQuery w =
     (let g = (this w)\<lparr>priv_env := EnvModule, priv_query := parseQuery (location_search w)\<rparr>
      in case collisionManager w of
           None \<Rightarrow> w\<lparr>this := g\<rparr>
         | Some m \<Rightarrow>
             w\<lparr>this := g,
               collisionManager :=
                 Some (m\<lparr>enabled := collisionSystem g, enabledDebugDraw := debugCollision g\<rparr>)\<rparr>)"

text \<open>
  \<open>loadDragonBones(name, node, armature, animation, times = -1)\<close>: the three URLs are built
  in the order of the object literal, then the loader is called.
\<close>

definition loadDragonBones ::
  "('c, 'q, 'n) world \<Rightarrow> string \<Rightarrow> 'n \<Rightarrow> string \<Rightarrow> string \<Rightarrow> int option
     \<Rightarrow> error + ('c, 'q, 'n) world" where
  "loadDragonBones w name node armature animation times_arg =
     (let t = (case times_arg of None \<Rightarrow> - 1 | Some n \<Rightarrow> n) in
      case urlOf (this w) (name @ ''_ske.json'') None of
        Inl e \<Rightarrow> Inl e
      | Inr ske \<Rightarrow>
          (case urlOf (this w) (name @ ''_tex.json'') None of
             Inl e \<Rightarrow> Inl e
           | Inr texJson \<Rightarrow>
               (case urlOf (this w) (name @ ''_tex.png'') None of
                  Inl e \<Rightarrow> Inl e
                | Inr tex \<Rightarrow>
                    Inr (w\<lparr>calls := calls w @
                          [LoadDragonBone
                             \<lparr>skeUrl = ske, texJsonUrl = texJson, texUrl = tex,
                              armatureName = armature, animationName = animation, times = t\<rparr>
                             node]\<rparr>))))"

section \<open>An example configuration\<close>

text \<open>
  A configured component, a world around it and an audio engine that numbers its plays,
  at which the theorems below are instantiated.
\<close>

definition demo :: "(nat, nat) GameBase" where
  "demo = (fresh 0)\<lparr>resourceHost := ''http://h'', directory := ''res''\<rparr>"

definition demo_world :: "(nat, nat, unit) world" where
  "demo_world = \<lparr>this = demo, collisionManager = None, location_search = ''?a=1'', calls = []\<rparr>"

definition demo_play :: "(nat, unit) call list \<Rightarrow> nat \<Rightarrow> int" where
  "demo_play history clip = int (length history)"

section \<open>Helper facts\<close>

lemma checkHostAndDir_ok:
  "resourceHost g \<noteq> [] \<Longrightarrow> directory g \<noteq> [] \<Longrightarrow> checkHostAndDir g = Inr ()"
  by (simp add: checkHostAndDir_def)

lemma urlOf_ok:
  "resourceHost g \<noteq> [] \<Longrightarrow> directory g \<noteq> [] \<Longrightarrow>
   urlOf g f None = Inr (resourceHost g @ ''/'' @ directory g @ ''/'' @ f)"
  by (simp add: urlOf_def checkHostAndDir_def)

lemma urlsOf_ok:
  "resourceHost g \<noteq> [] \<Longrightarrow> directory g \<noteq> [] \<Longrightarrow>
   urlsOf g names = Inr (map (\<lambda>f. [resourceHost g @ ''/'' @ directory g @ ''/'' @ f]) names)"
  by (induction names) (simp_all add: urlOf_ok)

lemma toUpperCase_idem: "toUpperCase (toUpperCase c) = toUpperCase c"
proof (cases "97 \<le> (of_char c :: nat) \<and> (of_char c :: nat) \<le> 122")
  case True
  define n where "n = (of_char c :: nat)"
  from True have range: "97 \<le> n" "n \<le> 122"
    by (simp_all add: n_def)
  have up: "toUpperCase c = char_of (n - 32)"
    using True by (simp add: toUpperCase_def n_def)
  from range have "(n - 32) mod 256 = n - 32"
    by simp
  then have code: "(of_char (char_of (n - 32)) :: nat) = n - 32"
    by simp
  from range have "\<not> (97 \<le> n - 32 \<and> n - 32 \<le> 122)"
    by simp
  with code have "toUpperCase (char_of (n - 32)) = char_of (n - 32)"
    unfolding toUpperCase_def Let_def by (simp only: if_False)
  with up show ?thesis
    by simp
next
  case False
  then have "toUpperCase c = c"
    unfolding toUpperCase_def Let_def by (simp only: if_False)
  then show ?thesis
    by simp
qed

lemma capitalize_idem: "capitalize (capitalize s) = capitalize s"
  by (cases s) (simp_all add: toUpperCase_idem)

lemma capitalize_red: "capitalize ''red'' = ''Red''"
  by (simp add: toUpperCase_def char_of_def bit_Suc_0_iff)

lemma capitalize_Red: "capitalize ''Red'' = ''Red''"
  by (simp add: toUpperCase_def)

lemma values_of_record:
  "distinct (map fst r) \<Longrightarrow> map (\<lambda>k. the (map_of r k)) (map fst r) = map snd r"
proof (induction r)
  case Nil
  then show ?case by simp
next
  case (Cons kv r)
  obtain k v where kv: "kv = (k, v)" by (cases kv)
  from Cons.prems kv have notin: "k \<notin> fst ` set r" and d: "distinct (map fst r)"
    by auto
  have "map (\<lambda>k'. the (map_of (kv # r) k')) (map fst r) = map (\<lambda>k'. the (map_of r k')) (map fst r)"
    using notin kv by (intro map_cong) auto
  with Cons.IH [OF d] kv show ?case by simp
qed

lemma storeClips_frame:
  "storeClips cap keys i clips m = Some m' \<Longrightarrow>
   (\<And>j. j < length clips \<Longrightarrow> n \<noteq> slot (cap (keys ! (i + j)))) \<Longrightarrow> m' n = m n"
proof (induction clips arbitrary: i m)
  case Nil
  then show ?case by simp
next
  case (Cons c rest)
  from Cons.prems(1) have lt: "i < length keys"
    and run: "storeClips cap keys (Suc i) rest (m(slot (cap (keys ! i)) \<mapsto> c)) = Some m'"
    by (auto split: if_splits)
  have "n \<noteq> slot (cap (keys ! (Suc i + j)))" if "j < length rest" for j
    using Cons.prems(2) [of "Suc j"] that by simp
  with Cons.IH [OF run] have "m' n = (m(slot (cap (keys ! i)) \<mapsto> c)) n"
    by blast
  moreover have "n \<noteq> slot (cap (keys ! i))"
    using Cons.prems(2) [of 0] by simp
  ultimately show ?case by simp
qed

lemma storeClips_last_wins:
  "storeClips cap keys i clips m = Some m' \<Longrightarrow> j < length clips \<Longrightarrow>
   (\<And>j'. j < j' \<Longrightarrow> j' < length clips \<Longrightarrow> cap (keys ! (i + j')) \<noteq> cap (keys ! (i + j))) \<Longrightarrow>
   m' (slot (cap (keys ! (i + j)))) = Some (clips ! j)"
proof (induction clips arbitrary: i m j)
  case Nil
  then show ?case by simp
next
  case (Cons c rest)
  from Cons.prems(1) have lt: "i < length keys"
    and run: "storeClips cap keys (Suc i) rest (m(slot (cap (keys ! i)) \<mapsto> c)) = Some m'"
    by (auto split: if_splits)
  show ?case
  proof (cases j)
    case 0
    have "slot (cap (keys ! i)) \<noteq> slot (cap (keys ! (Suc i + j')))" if "j' < length rest" for j'
      using Cons.prems(3) [of "Suc j'"] that 0 by (simp add: slot_def)
    with storeClips_frame [OF run] have "m' (slot (cap (keys ! i))) = (m(slot (cap (keys ! i)) \<mapsto> c)) (slot (cap (keys ! i)))"
      by blast
    with 0 show ?thesis by simp
  next
    case (Suc j0)
    have "cap (keys ! (Suc i + j')) \<noteq> cap (keys ! (Suc i + j0))" if "j0 < j'" "j' < length rest" for j'
      using Cons.prems(3) [of "Suc j'"] that Suc by simp
    moreover from Cons.prems(2) Suc have "j0 < length rest" by simp
    ultimately have "m' (slot (cap (keys ! (Suc i + j0)))) = Some (rest ! j0)"
      using Cons.IH [OF run] by blast
    with Suc show ?thesis by simp
  qed
qed

lemma storeClips_runs:
  "i + length clips \<le> length keys \<Longrightarrow> \<exists>m'. storeClips cap keys i clips m = Some m'"
  by (induction clips arbitrary: i m) auto

lemma loadAudio_ok:
  assumes "resourceHost (this w) \<noteq> []" and "directory (this w) \<noteq> []"
  shows "loadAudio w f key_arg =
     Inr (LoadPromise (resourceHost (this w) @ ''/'' @ directory (this w) @ ''/'' @ f)
            (case key_arg of None \<Rightarrow> None | Some k \<Rightarrow> if k \<noteq> [] then Some k else None),
          w\<lparr>calls := calls w @ [Load (resourceHost (this w) @ ''/'' @ directory (this w) @ ''/'' @ f)]\<rparr>)"
  using assms by (simp add: loadAudio_def checkHostAndDir_ok urlOf_ok split: option.splits)

lemma loadAudio_error:
  "checkHostAndDir (this w) = Inl e \<Longrightarrow> loadAudio w f key_arg = Inl e"
  by (simp add: loadAudio_def)

lemma loadAudios_error:
  "checkHostAndDir (this w) = Inl e \<Longrightarrow> loadAudios w fs = Inl e"
  by (cases fs) simp_all

lemma loadAudios_array_ok:
  assumes "resourceHost (this w) \<noteq> []" and "directory (this w) \<noteq> []"
  shows "loadAudios w (Array names) =
     Inr (LoadAllPromise (map (\<lambda>f. [resourceHost (this w) @ ''/'' @ directory (this w) @ ''/'' @ f]) names) None,
          w\<lparr>calls := calls w @
            [LoadAll (map (\<lambda>f. [resourceHost (this w) @ ''/'' @ directory (this w) @ ''/'' @ f]) names)]\<rparr>)"
  using assms by (simp add: checkHostAndDir_ok urlsOf_ok)

lemma loadAudios_record_issued:
  assumes "resourceHost (this w) \<noteq> []" and "directory (this w) \<noteq> []"
  shows "loadAudios w (Record r) =
     Inr (LoadAllPromise
            (map (\<lambda>f. [resourceHost (this w) @ ''/'' @ directory (this w) @ ''/'' @ f])
               (map (\<lambda>k. the (map_of r k)) (map fst r)))
            (Some (map fst r)),
          w\<lparr>calls := calls w @
            [LoadAll (map (\<lambda>f. [resourceHost (this w) @ ''/'' @ directory (this w) @ ''/'' @ f])
               (map (\<lambda>k. the (map_of r k)) (map fst r)))]\<rparr>)"
  unfolding loadAudios.simps(2) Let_def
  by (simp add: checkHostAndDir_ok [OF assms] loadAudios_array_ok [OF assms] del: loadAudios.simps)

lemma loadAudios_record_ok:
  assumes "resourceHost (this w) \<noteq> []" and "directory (this w) \<noteq> []"
    and "distinct (map fst r)"
  shows "loadAudios w (Record r) =
     Inr (LoadAllPromise (map (\<lambda>f. [resourceHost (this w) @ ''/'' @ directory (this w) @ ''/'' @ f]) (map snd r))
            (Some (map fst r)),
          w\<lparr>calls := calls w @
            [LoadAll (map (\<lambda>f. [resourceHost (this w) @ ''/'' @ directory (this w) @ ''/'' @ f]) (map snd r))]\<rparr>)"
  unfolding loadAudios_record_issued [OF assms(1,2)] values_of_record [OF assms(3)]
  by (rule refl)

lemma loadDragonBones_ok:
  assumes "resourceHost (this w) \<noteq> []" and "directory (this w) \<noteq> []"
  shows "loadDragonBones w name node armature animation times_arg =
     Inr (w\<lparr>calls := calls w @
       [LoadDragonBone
          \<lparr>skeUrl = resourceHost (this w) @ ''/'' @ directory (this w) @ ''/'' @ name @ ''_ske.json'',
           texJsonUrl = resourceHost (this w) @ ''/'' @ directory (this w) @ ''/'' @ name @ ''_tex.json'',
           texUrl = resourceHost (this w) @ ''/'' @ directory (this w) @ ''/'' @ name @ ''_tex.png'',
           armatureName = armature, animationName = animation,
           times = (case times_arg of None \<Rightarrow> - 1 | Some n \<Rightarrow> n)\<rparr>
          node]\<rparr>)"
  using assms by (simp add: loadDragonBones_def urlOf_ok)

lemma playAudio_this: "this (snd (playAudio cap play w n)) = this w"
  by (simp add: playAudio_def Let_def split: option.splits)


lemma playAudioPromise_no_error:
  assumes "resourceHost (this w) \<noteq> []" and "directory (this w) \<noteq> []"
  shows "\<exists>r. playAudioPromise cap play w audioName tryLoad_arg key_arg ext_arg = Inr r"
proof -
  have "resourceHost (this (snd (playAudio cap play w k))) \<noteq> []"
    and "directory (this (snd (playAudio cap play w k))) \<noteq> []" for k
    using assms by (simp_all add: playAudio_this)
  then show ?thesis
    by (simp add: playAudioPromise_def Let_def loadAudio_ok)
qed

lemma round_trip:
  assumes idem: "cap (cap key) = cap key" and key: "key \<noteq> []"
    and load: "loadAudio w filename (Some key) = Inr (p, w1)"
  shows "store_key p = Some key"
    and "props (this (loadAudio_then cap p clip w1)) (slot (cap key)) = Some clip"
    and "playAudio cap play (loadAudio_then cap p clip w1) key =
           (play (calls (loadAudio_then cap p clip w1)) clip,
            (loadAudio_then cap p clip w1)
              \<lparr>calls := calls (loadAudio_then cap p clip w1) @ [Play clip]\<rparr>)"
proof -
  from load key show sk: "store_key p = Some key"
    by (auto simp: loadAudio_def Let_def split: sum.splits)
  then show stored: "props (this (loadAudio_then cap p clip w1)) (slot (cap key)) = Some clip"
    by (simp add: loadAudio_then_def)
  then show "playAudio cap play (loadAudio_then cap p clip w1) key =
           (play (calls (loadAudio_then cap p clip w1)) clip,
            (loadAudio_then cap p clip w1)
              \<lparr>calls := calls (loadAudio_then cap p clip w1) @ [Play clip]\<rparr>)"
    by (simp add: playAudio_def Let_def idem)
qed

section \<open>Properties of the URL and of the guard\<close>

text \<open>
  C1: with \<open>resourceHost\<close> and \<open>directory\<close> both non-empty, \<open>urlOf(f, d)\<close> returns
  exactly \<open>resourceHost + "/" + d + "/" + f\<close> for every filename \<open>f\<close> and directory
  string \<open>d\<close>, and \<open>urlOf(f)\<close> with the argument omitted is \<open>urlOf(f, directory)\<close>.
\<close>

theorem urlOf_host_dir_filename:
  assumes "resourceHost g \<noteq> []" and "directory g \<noteq> []"
  shows "urlOf g f (Some d) = Inr (resourceHost g @ ''/'' @ d @ ''/'' @ f)
       \<and> urlOf g f None = urlOf g f (Some (directory g))"
  using assms by (simp add: urlOf_def checkHostAndDir_def)

theorem urlOf_host_dir_filename_witness:
  "urlOf demo ''a.mp3'' (Some ''snd'') = Inr ''http://h/snd/a.mp3''
   \<and> urlOf demo ''a.mp3'' None = urlOf demo ''a.mp3'' (Some ''res'')"
  using urlOf_host_dir_filename [of demo "''a.mp3''" "''snd''"]
  by (simp add: demo_def fresh_def)

text \<open>
  C2: \<open>urlOf\<close>, \<open>loadAudio\<close> and \<open>loadAudios\<close> throw exactly when \<open>resourceHost\<close> or
  \<open>directory\<close> is the empty string: the resource-host error when \<open>resourceHost\<close> is
  empty, otherwise the directory error when \<open>directory\<close> is empty, and nothing when
  both are set.  No other error is thrown by the component: with both set,
  \<open>loadDragonBones\<close> and \<open>playAudioPromise\<close> (the other methods that can reach the guard)
  return too, and the remaining methods of the model are total.
\<close>

theorem configuration_errors:
  "(resourceHost (this w) = [] \<longrightarrow>
      urlOf (this w) f d = Inl HostNotSet
    \<and> loadAudio w f k = Inl HostNotSet
    \<and> loadAudios w fs = Inl HostNotSet)
 \<and> (resourceHost (this w) \<noteq> [] \<and> directory (this w) = [] \<longrightarrow>
      urlOf (this w) f d = Inl DirectoryNotSet
    \<and> loadAudio w f k = Inl DirectoryNotSet
    \<and> loadAudios w fs = Inl DirectoryNotSet)
 \<and> (resourceHost (this w) \<noteq> [] \<and> directory (this w) \<noteq> [] \<longrightarrow>
      (\<exists>u. urlOf (this w) f d = Inr u)
    \<and> (\<exists>p. loadAudio w f k = Inr p)
    \<and> (\<exists>p. loadAudios w fs = Inr p)
    \<and> (\<exists>w'. loadDragonBones w name node armature animation t = Inr w')
    \<and> (\<exists>p. playAudioPromise cap play w name tryLoad key ext = Inr p))"
proof (intro conjI impI)
  assume "resourceHost (this w) = []"
  then have c: "checkHostAndDir (this w) = Inl HostNotSet"
    by (simp add: checkHostAndDir_def)
  from c show "urlOf (this w) f d = Inl HostNotSet"
    by (simp add: urlOf_def)
  from c show "loadAudio w f k = Inl HostNotSet"
    by (rule loadAudio_error)
  from c show "loadAudios w fs = Inl HostNotSet"
    by (rule loadAudios_error)
next
  assume "resourceHost (this w) \<noteq> [] \<and> directory (this w) = []"
  then have c: "checkHostAndDir (this w) = Inl DirectoryNotSet"
    by (simp add: checkHostAndDir_def)
  from c show "urlOf (this w) f d = Inl DirectoryNotSet"
    by (simp add: urlOf_def)
  from c show "loadAudio w f k = Inl DirectoryNotSet"
    by (rule loadAudio_error)
  from c show "loadAudios w fs = Inl DirectoryNotSet"
    by (rule loadAudios_error)
next
  assume a: "resourceHost (this w) \<noteq> [] \<and> directory (this w) \<noteq> []"
  then have h: "resourceHost (this w) \<noteq> []" and d: "directory (this w) \<noteq> []"
    by simp_all
  from h d show "\<exists>u. urlOf (this w) f d = Inr u"
    by (simp add: urlOf_def checkHostAndDir_def)
  from h d show "\<exists>p. loadAudio w f k = Inr p"
    by (simp add: loadAudio_ok)
  show "\<exists>p. loadAudios w fs = Inr p"
  proof (cases fs)
    case (Array names)
    with h d show ?thesis
      by (simp add: loadAudios_array_ok del: loadAudios.simps)
  next
    case (Record r)
    with h d show ?thesis
      by (simp add: loadAudios_record_issued del: loadAudios.simps)
  qed
  from h d show "\<exists>w'. loadDragonBones w name node armature animation t = Inr w'"
    by (simp add: loadDragonBones_ok)
  from h d show "\<exists>p. playAudioPromise cap play w name tryLoad key ext = Inr p"
    by (rule playAudioPromise_no_error)
qed

theorem configuration_errors_witness:
  "(urlOf (this (demo_world\<lparr>this := fresh 0\<rparr>)) ''a.mp3'' None = Inl HostNotSet
    \<and> loadAudio (demo_world\<lparr>this := fresh 0\<rparr>) ''a.mp3'' (Some ''red'') = Inl HostNotSet
    \<and> loadAudios (demo_world\<lparr>this := fresh 0\<rparr>) (Array [''a.mp3'']) = Inl HostNotSet)
 \<and> (urlOf (this (demo_world\<lparr>this := demo\<lparr>directory := []\<rparr>\<rparr>)) ''a.mp3'' None = Inl DirectoryNotSet
    \<and> loadAudio (demo_world\<lparr>this := demo\<lparr>directory := []\<rparr>\<rparr>) ''a.mp3'' (Some ''red'') = Inl DirectoryNotSet
    \<and> loadAudios (demo_world\<lparr>this := demo\<lparr>directory := []\<rparr>\<rparr>) (Array [''a.mp3'']) = Inl DirectoryNotSet)
 \<and> ((\<exists>u. urlOf (this demo_world) ''a.mp3'' None = Inr u)
    \<and> (\<exists>p. loadAudio demo_world ''a.mp3'' (Some ''red'') = Inr p)
    \<and> (\<exists>p. loadAudios demo_world (Record [(''red'', ''a.mp3'')]) = Inr p)
    \<and> (\<exists>w'. loadDragonBones demo_world ''hero'' () ''arm'' ''run'' None = Inr w')
    \<and> (\<exists>p. playAudioPromise capitalize demo_play demo_world ''hero'' (Some True) None None = Inr p))"
proof -
  have empty: "resourceHost (this (demo_world\<lparr>this := fresh 0\<rparr>)) = []"
    by (simp add: fresh_def)
  have nodir: "resourceHost (this (demo_world\<lparr>this := demo\<lparr>directory := []\<rparr>\<rparr>)) \<noteq> []
      \<and> directory (this (demo_world\<lparr>this := demo\<lparr>directory := []\<rparr>\<rparr>)) = []"
    by (simp add: demo_def fresh_def)
  have both: "resourceHost (this demo_world) \<noteq> [] \<and> directory (this demo_world) \<noteq> []"
    by (simp add: demo_world_def demo_def fresh_def)
  note t1 = configuration_errors [where w = "demo_world\<lparr>this := fresh 0\<rparr>" and f = "''a.mp3''" and d = None
      and k = "Some ''red''" and fs = "Array [''a.mp3'']"]
  note t2 = configuration_errors [where w = "demo_world\<lparr>this := demo\<lparr>directory := []\<rparr>\<rparr>" and f = "''a.mp3''"
      and d = None and k = "Some ''red''" and fs = "Array [''a.mp3'']"]
  note t3 = configuration_errors [where w = demo_world and f = "''a.mp3''" and d = None and k = "Some ''red''"
      and fs = "Record [(''red'', ''a.mp3'')]" and name = "''hero''" and node = "()" and armature = "''arm''"
      and animation = "''run''" and t = None and cap = capitalize and play = demo_play
      and tryLoad = "Some True" and key = None and ext = None]
  note A = mp [OF conjunct1 [OF t1] empty]
  note B = mp [OF conjunct1 [OF conjunct2 [OF t2]] nodir]
  note C = mp [OF conjunct2 [OF conjunct2 [OF t3]] both]
  show ?thesis
    by (rule conjI [OF A conjI [OF B C]])
qed

section \<open>Properties of the audio methods\<close>

text \<open>
  C3: for every filename and every non-empty key \<open>k\<close>, once the promise of
  \<open>loadAudio(filename, k)\<close> has resolved with clip \<open>c\<close>, the clip is stored under
  \<open>"_$audio" + capitalize(k)\<close>; \<open>playAudio(k)\<close> looks up
  \<open>"_$audio" + capitalize(capitalize(k))\<close>, which is the same property, hands \<open>c\<close> to the
  audio engine and returns the id the engine gives, not the \<open>-1\<close> of a missing clip.
\<close>

theorem load_play_round_trip:
  assumes "k \<noteq> []"
    and "loadAudio w filename (Some k) = Inr (p, w1)"
    and "w2 = loadAudio_then capitalize p c w1"
  shows "props (this w2) (''_$audio'' @ capitalize k) = Some c
       \<and> ''_$audio'' @ capitalize (capitalize k) = ''_$audio'' @ capitalize k
       \<and> playAudio capitalize play w2 k = (play (calls w2) c, w2\<lparr>calls := calls w2 @ [Play c]\<rparr>)"
  using round_trip(2,3) [OF capitalize_idem assms(1,2), where clip = c] assms(3)
  by (simp add: slot_def capitalize_idem)

theorem load_play_round_trip_witness:
  "loadAudio demo_world ''a.mp3'' (Some ''red'') =
     Inr (LoadPromise ''http://h/res/a.mp3'' (Some ''red''), demo_world\<lparr>calls := [Load ''http://h/res/a.mp3'']\<rparr>)
 \<and> playAudio capitalize demo_play
      (loadAudio_then capitalize (LoadPromise ''http://h/res/a.mp3'' (Some ''red'')) 7
         (demo_world\<lparr>calls := [Load ''http://h/res/a.mp3'']\<rparr>)) ''red''
    = (1, (loadAudio_then capitalize (LoadPromise ''http://h/res/a.mp3'' (Some ''red'')) 7
         (demo_world\<lparr>calls := [Load ''http://h/res/a.mp3'']\<rparr>))
           \<lparr>calls := [Load ''http://h/res/a.mp3'', Play 7]\<rparr>)"
proof -
  have ne: "''red'' \<noteq> []"
    by simp
  have l: "loadAudio demo_world ''a.mp3'' (Some ''red'') =
     Inr (LoadPromise ''http://h/res/a.mp3'' (Some ''red''), demo_world\<lparr>calls := [Load ''http://h/res/a.mp3'']\<rparr>)"
    by (simp add: loadAudio_def checkHostAndDir_def urlOf_def demo_world_def demo_def fresh_def)
  have c: "calls (loadAudio_then capitalize (LoadPromise ''http://h/res/a.mp3'' (Some ''red'')) 7
         (demo_world\<lparr>calls := [Load ''http://h/res/a.mp3'']\<rparr>)) = [Load ''http://h/res/a.mp3'']"
    by (simp add: loadAudio_then_def)
  note t = load_play_round_trip [OF ne l refl, where c = 7 and play = demo_play]
  from conjunct2 [OF conjunct2 [OF t]] c
  have "playAudio capitalize demo_play
      (loadAudio_then capitalize (LoadPromise ''http://h/res/a.mp3'' (Some ''red'')) 7
         (demo_world\<lparr>calls := [Load ''http://h/res/a.mp3'']\<rparr>)) ''red''
    = (1, (loadAudio_then capitalize (LoadPromise ''http://h/res/a.mp3'' (Some ''red'')) 7
         (demo_world\<lparr>calls := [Load ''http://h/res/a.mp3'']\<rparr>))
           \<lparr>calls := [Load ''http://h/res/a.mp3'', Play 7]\<rparr>)"
    by (simp add: demo_play_def)
  with l show ?thesis
    by (rule conjI)
qed

text \<open>
  C4, as the code has it: for every record \<open>r\<close> of distinct keys, with host and directory
  set, \<open>loadAudios(r)\<close> asks the loader for \<open>urlOf(r[k])\<close> for each key \<open>k\<close> in the
  enumeration order of \<open>r\<close>; when the promise resolves with one clip per key, every key
  \<open>k\<^sub>i\<close> whose capitalized form differs from that of every later key has the clip at position
  \<open>i\<close> stored under \<open>"_$audio" + capitalize(k\<^sub>i)\<close>, and a subsequent \<open>playAudio(k\<^sub>i)\<close>
  plays that clip.
\<close>

theorem loadAudios_record_round_trip:
  assumes "resourceHost (this w) \<noteq> []" and "directory (this w) \<noteq> []"
    and "distinct (map fst r)"
    and "length clips = length r"
    and "us = map (\<lambda>f. [resourceHost (this w) @ ''/'' @ directory (this w) @ ''/'' @ f]) (map snd r)"
    and "p = LoadAllPromise us (Some (map fst r))"
    and "w1 = w\<lparr>calls := calls w @ [LoadAll us]\<rparr>"
  shows "loadAudios w (Record r) = Inr (p, w1)
    \<and> (\<exists>w2. loadAudios_then capitalize p clips w1 = Some w2
         \<and> (\<forall>i < length r.
              (\<forall>j. i < j \<and> j < length r \<longrightarrow> capitalize (fst (r ! j)) \<noteq> capitalize (fst (r ! i))) \<longrightarrow>
                props (this w2) (''_$audio'' @ capitalize (fst (r ! i))) = Some (clips ! i)
              \<and> playAudio capitalize play w2 (fst (r ! i)) =
                  (play (calls w2) (clips ! i), w2\<lparr>calls := calls w2 @ [Play (clips ! i)]\<rparr>)))"
proof -
  have issued: "loadAudios w (Record r) = Inr (p, w1)"
    using loadAudios_record_ok [OF assms(1-3)] assms(5-7) by (simp del: loadAudios.simps)
  have "0 + length clips \<le> length (map fst r)"
    using assms(4) by simp
  then obtain m where run: "storeClips capitalize (map fst r) 0 clips (props (this w1)) = Some m"
    using storeClips_runs by blast
  define w2 where "w2 = w1\<lparr>this := (this w1)\<lparr>props := m\<rparr>\<rparr>"
  have resolved: "loadAudios_then capitalize p clips w1 = Some w2"
    using run by (simp add: loadAudios_then_def assms(6) w2_def)
  have each: "props (this w2) (''_$audio'' @ capitalize (fst (r ! i))) = Some (clips ! i)
      \<and> playAudio capitalize play w2 (fst (r ! i)) =
          (play (calls w2) (clips ! i), w2\<lparr>calls := calls w2 @ [Play (clips ! i)]\<rparr>)"
    if i: "i < length r"
      and last: "\<forall>j. i < j \<and> j < length r \<longrightarrow> capitalize (fst (r ! j)) \<noteq> capitalize (fst (r ! i))"
    for i
  proof -
    have "capitalize (map fst r ! (0 + j)) \<noteq> capitalize (map fst r ! (0 + i))"
      if "i < j" "j < length clips" for j
      using last that assms(4) i by simp
    moreover from i assms(4) have "i < length clips"
      by simp
    ultimately have "m (slot (capitalize (map fst r ! (0 + i)))) = Some (clips ! i)"
      using storeClips_last_wins [OF run] by blast
    with i have stored: "props (this w2) (slot (capitalize (fst (r ! i)))) = Some (clips ! i)"
      by (simp add: w2_def)
    then have "playAudio capitalize play w2 (fst (r ! i)) =
          (play (calls w2) (clips ! i), w2\<lparr>calls := calls w2 @ [Play (clips ! i)]\<rparr>)"
      by (simp add: playAudio_def Let_def capitalize_idem)
    with stored show ?thesis
      by (simp add: slot_def)
  qed
  from issued resolved each show ?thesis
    by blast
qed

theorem loadAudios_record_round_trip_witness:
  "loadAudios demo_world (Record [(''red'', ''a.mp3''), (''blue'', ''b.mp3'')]) =
     Inr (LoadAllPromise [[''http://h/res/a.mp3''], [''http://h/res/b.mp3'']] (Some [''red'', ''blue'']),
          demo_world\<lparr>calls := [LoadAll [[''http://h/res/a.mp3''], [''http://h/res/b.mp3'']]]\<rparr>)
 \<and> calls (snd (playAudio capitalize demo_play
      (the (loadAudios_then capitalize
         (LoadAllPromise [[''http://h/res/a.mp3''], [''http://h/res/b.mp3'']] (Some [''red'', ''blue'']))
         [10, 20]
         (demo_world\<lparr>calls := [LoadAll [[''http://h/res/a.mp3''], [''http://h/res/b.mp3'']]]\<rparr>)))
      ''red''))
    = [LoadAll [[''http://h/res/a.mp3''], [''http://h/res/b.mp3'']], Play 10]"
proof -
  define r where "r = [(''red'', ''a.mp3''), (''blue'', ''b.mp3'')]"
  define us where "us = [[''http://h/res/a.mp3''], [''http://h/res/b.mp3'']]"
  define p where "p = LoadAllPromise us (Some (map fst r))"
  define w1 :: "(nat, nat, unit) world" where "w1 = demo_world\<lparr>calls := [LoadAll us]\<rparr>"
  have w1: "w1 = demo_world\<lparr>calls := calls demo_world @ [LoadAll us]\<rparr>"
    by (simp add: w1_def demo_world_def)
  have h: "resourceHost (this demo_world) \<noteq> []" and d: "directory (this demo_world) \<noteq> []"
    by (simp_all add: demo_world_def demo_def fresh_def)
  have dist: "distinct (map fst r)"
    by (simp add: r_def)
  have len: "length [10, 20 :: nat] = length r"
    by (simp add: r_def)
  have u: "us = map (\<lambda>f. [resourceHost (this demo_world) @ ''/'' @ directory (this demo_world) @ ''/'' @ f]) (map snd r)"
    by (simp add: us_def r_def demo_world_def demo_def fresh_def)
  from loadAudios_record_round_trip [OF h d dist len u p_def w1, where play = demo_play]
  obtain w2 where issued: "loadAudios demo_world (Record r) = Inr (p, w1)"
    and resolved: "loadAudios_then capitalize p [10, 20] w1 = Some w2"
    and each: "\<forall>i < length r.
        (\<forall>j. i < j \<and> j < length r \<longrightarrow> capitalize (fst (r ! j)) \<noteq> capitalize (fst (r ! i))) \<longrightarrow>
          playAudio capitalize demo_play w2 (fst (r ! i)) =
            (demo_play (calls w2) ([10, 20] ! i), w2\<lparr>calls := calls w2 @ [Play ([10, 20] ! i)]\<rparr>)"
    by blast
  have c2: "calls w2 = calls w1"
    using resolved by (auto simp: loadAudios_then_def split: option.splits)
  have "capitalize (fst (r ! j)) \<noteq> capitalize (fst (r ! 0))" if "0 < j \<and> j < length r" for j
  proof -
    from that have "j = 1"
      by (simp add: r_def)
    then show ?thesis
      by (simp add: r_def toUpperCase_def char_of_def bit_Suc_0_iff)
  qed
  then have "\<forall>j. 0 < j \<and> j < length r \<longrightarrow> capitalize (fst (r ! j)) \<noteq> capitalize (fst (r ! 0))"
    by blast
  moreover have "0 < length r"
    by (simp add: r_def)
  ultimately have "playAudio capitalize demo_play w2 (fst (r ! 0)) =
      (demo_play (calls w2) ([10, 20] ! 0), w2\<lparr>calls := calls w2 @ [Play ([10, 20] ! 0)]\<rparr>)"
    using each by blast
  then have "calls (snd (playAudio capitalize demo_play w2 ''red'')) = calls w1 @ [Play 10]"
    by (simp add: r_def c2)
  moreover have "calls w1 = [LoadAll us]"
    by (simp add: w1_def)
  ultimately have played: "calls (snd (playAudio capitalize demo_play (the (loadAudios_then capitalize p [10, 20] w1)) ''red''))
      = [LoadAll us, Play 10]"
    by (simp add: resolved)
  from issued played show ?thesis
    unfolding r_def us_def p_def w1_def by (simp del: loadAudios.simps)
qed

text \<open>
  C4 as stated fails: in the record \<open>{red: 'a.mp3', Red: 'b.mp3'}\<close> both keys capitalize to
  \<open>Red\<close>, the second clip overwrites the first, and \<open>playAudio('red')\<close> plays the clip
  loaded from \<open>r['Red']\<close> (clip \<open>20\<close>), not the one loaded from \<open>r['red']\<close> (clip \<open>10\<close>).
\<close>

theorem loadAudios_colliding_keys_counterexample:
  "loadAudios demo_world (Record [(''red'', ''a.mp3''), (''Red'', ''b.mp3'')]) =
     Inr (LoadAllPromise [[''http://h/res/a.mp3''], [''http://h/res/b.mp3'']] (Some [''red'', ''Red'']),
          demo_world\<lparr>calls := [LoadAll [[''http://h/res/a.mp3''], [''http://h/res/b.mp3'']]]\<rparr>)
 \<and> loadAudios_then capitalize
      (LoadAllPromise [[''http://h/res/a.mp3''], [''http://h/res/b.mp3'']] (Some [''red'', ''Red'']))
      [10, 20]
      (demo_world\<lparr>calls := [LoadAll [[''http://h/res/a.mp3''], [''http://h/res/b.mp3'']]]\<rparr>)
    = Some (demo_world
        \<lparr>this := demo\<lparr>props := [''_$audioRed'' \<mapsto> 20]\<rparr>,
         calls := [LoadAll [[''http://h/res/a.mp3''], [''http://h/res/b.mp3'']]]\<rparr>)
 \<and> playAudio capitalize demo_play
      (demo_world
        \<lparr>this := demo\<lparr>props := [''_$audioRed'' \<mapsto> 20]\<rparr>,
         calls := [LoadAll [[''http://h/res/a.mp3''], [''http://h/res/b.mp3'']]]\<rparr>)
      ''red''
    = (1, demo_world
        \<lparr>this := demo\<lparr>props := [''_$audioRed'' \<mapsto> 20]\<rparr>,
         calls := [LoadAll [[''http://h/res/a.mp3''], [''http://h/res/b.mp3'']], Play 20]\<rparr>)
 \<and> [10, 20 :: nat] ! 0 \<noteq> 20"
proof (intro conjI)
  show "loadAudios demo_world (Record [(''red'', ''a.mp3''), (''Red'', ''b.mp3'')]) =
     Inr (LoadAllPromise [[''http://h/res/a.mp3''], [''http://h/res/b.mp3'']] (Some [''red'', ''Red'']),
          demo_world\<lparr>calls := [LoadAll [[''http://h/res/a.mp3''], [''http://h/res/b.mp3'']]]\<rparr>)"
    by (simp add: checkHostAndDir_def urlOf_def demo_world_def demo_def fresh_def)
  show "loadAudios_then capitalize
      (LoadAllPromise [[''http://h/res/a.mp3''], [''http://h/res/b.mp3'']] (Some [''red'', ''Red'']))
      [10, 20]
      (demo_world\<lparr>calls := [LoadAll [[''http://h/res/a.mp3''], [''http://h/res/b.mp3'']]]\<rparr>)
    = Some (demo_world
        \<lparr>this := demo\<lparr>props := [''_$audioRed'' \<mapsto> 20]\<rparr>,
         calls := [LoadAll [[''http://h/res/a.mp3''], [''http://h/res/b.mp3'']]]\<rparr>)"
    by (simp add: loadAudios_then_def capitalize_red capitalize_Red slot_def demo_world_def demo_def
        fresh_def del: capitalize.simps)
  show "playAudio capitalize demo_play
      (demo_world
        \<lparr>this := demo\<lparr>props := [''_$audioRed'' \<mapsto> 20]\<rparr>,
         calls := [LoadAll [[''http://h/res/a.mp3''], [''http://h/res/b.mp3'']]]\<rparr>)
      ''red''
    = (1, demo_world
        \<lparr>this := demo\<lparr>props := [''_$audioRed'' \<mapsto> 20]\<rparr>,
         calls := [LoadAll [[''http://h/res/a.mp3''], [''http://h/res/b.mp3'']], Play 20]\<rparr>)"
    by (simp add: playAudio_def Let_def capitalize_red capitalize_Red slot_def demo_play_def
        del: capitalize.simps)
  show "[10, 20 :: nat] ! 0 \<noteq> 20"
    by simp
qed




text \<open>
  C9: when no clip is stored under \<open>"_$audio" + capitalize(capitalize(n))\<close>,
  \<open>playAudio(n)\<close> returns \<open>-1\<close> and leaves the component, the engine's call history and
  everything else as they were; on a fresh component this is so for every \<open>n\<close>, whatever
  the capitalize helper does.
\<close>

theorem playAudio_missing:
  "(props (this w) (''_$audio'' @ cap (cap n)) = None \<longrightarrow> playAudio cap play w n = (- 1, w))
 \<and> playAudio cap play (w\<lparr>this := fresh q0\<rparr>) n = (- 1, w\<lparr>this := fresh q0\<rparr>)"
  by (simp add: playAudio_def Let_def slot_def fresh_def)

theorem playAudio_missing_witness:
  "props (this demo_world) (''_$audio'' @ capitalize (capitalize ''red'')) = None
 \<and> playAudio capitalize demo_play demo_world ''red'' = (- 1, demo_world)"
proof -
  have none: "props (this demo_world) (''_$audio'' @ capitalize (capitalize ''red'')) = None"
    by (simp add: demo_world_def demo_def fresh_def)
  from mp [OF conjunct1 [OF playAudio_missing [where w = demo_world and cap = capitalize and n = "''red''"
        and play = demo_play and ?q0.0 = 0]] none] none
  show ?thesis
    by (intro conjI)
qed

section \<open>Properties of the lifecycle hook, the skeleton loader and the setters\<close>

text \<open>
  C6: after \<open>onLoad\<close>, a collision manager the engine has carries \<open>enabled\<close> equal to the
  component's \<open>collisionSystem\<close> and \<open>enabledDebugDraw\<close> equal to its \<open>debugCollision\<close>;
  when the engine has none, \<open>onLoad\<close> still returns and there is still none; \<open>_query\<close>
  is the parse of \<open>location.search\<close>.  The two properties themselves are not changed.
\<close>

theorem onLoad_collision_flags:
  "(\<forall>m. collisionManager w = Some m \<longrightarrow>
      collisionManager (onLoad parseQuery w)
        = Some (m\<lparr>enabled := collisionSystem (this w), enabledDebugDraw := debugCollision (this w)\<rparr>))
 \<and> (collisionManager w = None \<longrightarrow> collisionManager (onLoad parseQuery w) = None)
 \<and> priv_query (this (onLoad parseQuery w)) = parseQuery (location_search w)
 \<and> collisionSystem (this (onLoad parseQuery w)) = collisionSystem (this w)
 \<and> debugCollision (this (onLoad parseQuery w)) = debugCollision (this w)"
  by (simp add: onLoad_def Let_def split: option.splits)

theorem onLoad_collision_flags_witness:
  "collisionManager (onLoad length (demo_world\<lparr>this := demo\<lparr>collisionSystem := True\<rparr>,
       collisionManager := Some \<lparr>enabled = False, enabledDebugDraw = True\<rparr>\<rparr>))
     = Some \<lparr>enabled = True, enabledDebugDraw = False\<rparr>
 \<and> collisionManager (onLoad length demo_world) = None
 \<and> priv_query (this (onLoad length demo_world)) = 4"
proof -
  note t1 = onLoad_collision_flags [where parseQuery = length
      and w = "demo_world\<lparr>this := demo\<lparr>collisionSystem := True\<rparr>,
                 collisionManager := Some \<lparr>enabled = False, enabledDebugDraw = True\<rparr>\<rparr>"]
  note t2 = onLoad_collision_flags [where parseQuery = length and w = demo_world]
  have m: "collisionManager (demo_world\<lparr>this := demo\<lparr>collisionSystem := True\<rparr>,
       collisionManager := Some \<lparr>enabled = False, enabledDebugDraw = True\<rparr>\<rparr>)
      = Some \<lparr>enabled = False, enabledDebugDraw = True\<rparr>"
    by simp
  have n: "collisionManager demo_world = None"
    by (simp add: demo_world_def)
  from mp [OF spec [OF conjunct1 [OF t1]] m]
  have r1: "collisionManager (onLoad length (demo_world\<lparr>this := demo\<lparr>collisionSystem := True\<rparr>,
       collisionManager := Some \<lparr>enabled = False, enabledDebugDraw = True\<rparr>\<rparr>))
     = Some \<lparr>enabled = True, enabledDebugDraw = False\<rparr>"
    by (simp add: demo_def fresh_def)
  from conjunct1 [OF conjunct2 [OF conjunct2 [OF t2]]]
  have r3: "priv_query (this (onLoad length demo_world)) = 4"
    by (simp add: demo_world_def)
  from r1 mp [OF conjunct1 [OF conjunct2 [OF t2]] n] r3 show ?thesis
    by (intro conjI)
qed

text \<open>
  C7: with \<open>resourceHost\<close> and \<open>directory\<close> set, \<open>loadDragonBones(n, node, a, m, t)\<close>
  calls the engine loader once, on \<open>node\<close>, with \<open>skeUrl\<close>, \<open>texJsonUrl\<close> and \<open>texUrl\<close>
  equal to \<open>resourceHost + "/" + directory + "/" + n\<close> followed by \<open>_ske.json\<close>,
  \<open>_tex.json\<close> and \<open>_tex.png\<close>, \<open>armatureName = a\<close>, \<open>animationName = m\<close> and
  \<open>times = t\<close>, which is \<open>-1\<close> when omitted.
\<close>

theorem loadDragonBones_options:
  assumes "resourceHost (this w) \<noteq> []" and "directory (this w) \<noteq> []"
    and "base = resourceHost (this w) @ ''/'' @ directory (this w) @ ''/'' @ n"
  shows "loadDragonBones w n node a m (Some t) =
           Inr (w\<lparr>calls := calls w @
             [LoadDragonBone
                \<lparr>skeUrl = base @ ''_ske.json'', texJsonUrl = base @ ''_tex.json'',
                 texUrl = base @ ''_tex.png'', armatureName = a, animationName = m, times = t\<rparr>
                node]\<rparr>)
       \<and> loadDragonBones w n node a m None = loadDragonBones w n node a m (Some (- 1))"
  using assms by (simp add: loadDragonBones_ok)

theorem loadDragonBones_options_witness:
  "loadDragonBones demo_world ''hero'' () ''arm'' ''run'' (Some 3) =
     Inr (demo_world\<lparr>calls :=
       [LoadDragonBone
          \<lparr>skeUrl = ''http://h/res/hero_ske.json'', texJsonUrl = ''http://h/res/hero_tex.json'',
           texUrl = ''http://h/res/hero_tex.png'', armatureName = ''arm'', animationName = ''run'',
           times = 3\<rparr>
          ()]\<rparr>)"
proof -
  have h: "resourceHost (this demo_world) \<noteq> []" and d: "directory (this demo_world) \<noteq> []"
    by (simp_all add: demo_world_def demo_def fresh_def)
  have b: "''http://h/res/hero'' = resourceHost (this demo_world) @ ''/'' @ directory (this demo_world) @ ''/'' @ ''hero''"
    by (simp add: demo_world_def demo_def fresh_def)
  have "calls demo_world = []"
    by (simp add: demo_world_def)
  with conjunct1 [OF loadDragonBones_options [OF h d b, where node = "()" and a = "''arm''" and m = "''run''" and t = 3]]
  show ?thesis
    by simp
qed

text \<open>
  C8: \<open>setResourceHost(h)\<close> sets \<open>resourceHost\<close> to \<open>h\<close> and returns the component with
  \<open>directory\<close>, \<open>collisionSystem\<close>, \<open>debugCollision\<close>, \<open>_query\<close>, \<open>_env\<close> and every stored
  clip as before; \<open>setDirectory(d)\<close> does the same for \<open>directory\<close> alone; so the two
  chain, in either order.
\<close>

theorem setters_frame:
  "setResourceHost h g = g\<lparr>resourceHost := h\<rparr>
 \<and> resourceHost (setResourceHost h g) = h
 \<and> directory (setResourceHost h g) = directory g
 \<and> collisionSystem (setResourceHost h g) = collisionSystem g
 \<and> debugCollision (setResourceHost h g) = debugCollision g
 \<and> priv_query (setResourceHost h g) = priv_query g
 \<and> priv_env (setResourceHost h g) = priv_env g
 \<and> props (setResourceHost h g) = props g
 \<and> setDirectory d g = g\<lparr>directory := d\<rparr>
 \<and> directory (setDirectory d g) = d
 \<and> resourceHost (setDirectory d g) = resourceHost g
 \<and> collisionSystem (setDirectory d g) = collisionSystem g
 \<and> debugCollision (setDirectory d g) = debugCollision g
 \<and> priv_query (setDirectory d g) = priv_query g
 \<and> priv_env (setDirectory d g) = priv_env g
 \<and> props (setDirectory d g) = props g
 \<and> setDirectory d (setResourceHost h g) = g\<lparr>resourceHost := h, directory := d\<rparr>
 \<and> setResourceHost h (setDirectory d g) = g\<lparr>resourceHost := h, directory := d\<rparr>"
  by (simp add: setResourceHost_def setDirectory_def)

theorem setters_frame_witness:
  "setDirectory ''res'' (setResourceHost ''http://h'' (fresh 0)) = (demo :: (nat, nat) GameBase)"
  using setters_frame [where h = "''http://h''" and d = "''res''" and g = "fresh 0 :: (nat, nat) GameBase"]
  by (simp add: demo_def setResourceHost_def setDirectory_def)

text \<open>
  C10 as stated fails: with \<open>resourceHost\<close> and \<open>directory\<close> both empty, \<open>urlOf(f, d)\<close>
  throws the resource-host error, not the directory error, since the host is tested
  first.
\<close>

theorem urlOf_explicit_dir_counterexample:
  "directory (fresh 0 :: (nat, nat) GameBase) = []
 \<and> urlOf (fresh 0 :: (nat, nat) GameBase) ''a.mp3'' (Some ''snd'') = Inl HostNotSet
 \<and> urlOf (fresh 0 :: (nat, nat) GameBase) ''a.mp3'' (Some ''snd'') \<noteq> Inl DirectoryNotSet"
  by (simp add: urlOf_def checkHostAndDir_def fresh_def)

text \<open>
  C10, as the code has it: for every filename and every explicit \<open>dir\<close> argument,
  \<open>urlOf(f, d)\<close> throws whenever the \<open>directory\<close> property is empty, the directory error
  when \<open>resourceHost\<close> is set and the resource-host error when it is not: the guard reads
  the two properties only, never the argument.
\<close>

theorem urlOf_explicit_dir_guard:
  assumes "directory g = []"
  shows "urlOf g f (Some d) = (if resourceHost g = [] then Inl HostNotSet else Inl DirectoryNotSet)"
  using assms by (simp add: urlOf_def checkHostAndDir_def)

theorem urlOf_explicit_dir_guard_witness:
  "directory (demo\<lparr>directory := []\<rparr>) = []
 \<and> urlOf (demo\<lparr>directory := []\<rparr>) ''a.mp3'' (Some ''snd'') = Inl DirectoryNotSet"
proof -
  have e: "directory (demo\<lparr>directory := []\<rparr>) = []"
    by simp
  have "resourceHost (demo\<lparr>directory := []\<rparr>) \<noteq> []"
    by (simp add: demo_def fresh_def)
  with urlOf_explicit_dir_guard [OF e, where f = "''a.mp3''" and d = "''snd''"] e show ?thesis
    by simp
qed


end
